theory Spec2Isabelle
  imports Complex_Main
begin

section \<open>JavaScript values and the WebGL context\<close>

text \<open>
  Every failure of the source is a value. \<open>TypeError\<close> is the runtime's own error (a
  property read on null or undefined, a call of something that is not a function). The
  others are the \<open>throw new Error(...)\<close> statements of the source, named after what
  they report:
  \<^item> \<open>InvalidContext\<close>: "OpenGL context in ... is not valid!";
  \<^item> \<open>InconsistentAttributeCount\<close>: "All attributes must have the same count";
  \<^item> \<open>NotInitialized\<close>: "ERROR: ... not initialized!";
  \<^item> \<open>InvalidAttributeName\<close>: "Attribute name ... in setAttribute is not valid!";
  \<^item> \<open>MalformedAttributeData\<close>: "Attribute data for ... must be an object of the form ...".
\<close>

datatype error =
    TypeError
  | InvalidContext
  | InconsistentAttributeCount
  | NotInitialized
  | InvalidAttributeName
  | MalformedAttributeData

text \<open>
  The element count of an attribute is \<open>array.length / itemSize\<close>, a division of
  JavaScript numbers: a non-negative length by an item size. Division by zero gives
  \<open>Infinity\<close>, or \<open>NaN\<close> for 0/0. The item size is a natural number here and the
  quotient is the exact one, where the source has the double nearest to it. The two
  agree on \<open>!==\<close> for the item sizes the source documents, 1 to 4, and array lengths
  below \<open>2^32\<close> (\<open>sizes_in_range\<close> below): two different exact quotients are then at
  least 1/16 apart and less than \<open>2^32\<close>, where neighbouring doubles are less than
  \<open>2^-20\<close> apart, so they round to different doubles. Beyond that range they do not:
  1/(2^53 - 1) and 1/(2^53 - 2) are one double. A statement that rests on two counts
  being different carries the range as a hypothesis.
\<close>

datatype jsnum = Num real | PosInf | NaN

definition js_divide :: "nat \<Rightarrow> nat \<Rightarrow> jsnum" where
  "js_divide n k =
     (if k = 0 then (if n = 0 then NaN else PosInf) else Num (real n / real k))"

text \<open>\<open>x === y\<close> on values that are a number or undefined (\<open>None\<close>): NaN equals nothing.\<close>

definition js_strict_eq :: "jsnum option \<Rightarrow> jsnum option \<Rightarrow> bool" where
  "js_strict_eq x y = (x = y \<and> x \<noteq> Some NaN)"

text \<open>
  The context is a WebGLRenderingContext, an object the core does not own. Its method
  names are those of the WebGL API; \<open>has c m\<close> says that \<open>typeof c.m\<close> is
  \<open>'function'\<close>, so a partial double of the context is a context too.
\<close>

datatype glmethod =
    GetParameter | CreateBuffer | BindBuffer | BufferData
  | EnableVertexAttribArray | VertexAttribPointer | DisableVertexAttribArray
  | DrawElements | DrawArrays
  | CreateShader | ShaderSource | CompileShader | GetShaderParameter
  | GetShaderInfoLog | DeleteShader
  | CreateProgram | AttachShader | LinkProgram | GetProgramParameter
  | GetProgramInfoLog | DeleteProgram | UseProgram
  | GetUniformLocation | GetUniform
  | Uniform1f | Uniform2f | Uniform3f | Uniform4f
  | Uniform1fv | Uniform2fv | Uniform3fv | Uniform4fv
  | UniformMatrix3fv | UniformMatrix4fv

text \<open>A constant read from the context, \<open>gl.ARRAY_BUFFER\<close> and so on, kept symbolic.\<close>

datatype glenum =
    ARRAY_BUFFER | ELEMENT_ARRAY_BUFFER | STATIC_DRAW | FLOAT | TRIANGLES
  | UNSIGNED_SHORT | VERTEX_SHADER | FRAGMENT_SHADER

datatype typed_array = Float32Array_from "real list" | Uint16Array_from "real list"

text \<open>
  One call on a context, with the arguments as the source passes them. A handle
  (buffer, shader, program, uniform location) is a number; \<open>None\<close> is null or
  undefined. \<open>Call_uniform_f n\<close> is the call of \<open>uniform<n>f\<close>, \<open>Call_uniform_fv n\<close>
  that of \<open>uniform<n>fv\<close>: the source builds both names from a length at run time.
\<close>

datatype glcall =
    Call_createBuffer
  | Call_bindBuffer glenum "nat option"
  | Call_bufferData glenum typed_array glenum
  | Call_enableVertexAttribArray nat
  | Call_vertexAttribPointer nat nat glenum bool nat nat
  | Call_disableVertexAttribArray "nat option"
  | Call_drawElements glenum "jsnum option" glenum nat
  | Call_drawArrays glenum nat "jsnum option"
  | Call_createShader "glenum option"
  | Call_shaderSource nat string
  | Call_compileShader nat
  | Call_getShaderParameter nat nat
  | Call_getShaderInfoLog nat
  | Call_deleteShader "nat option"
  | Call_createProgram
  | Call_attachShader nat "nat option"
  | Call_linkProgram nat
  | Call_getProgramParameter nat nat
  | Call_getProgramInfoLog nat
  | Call_deleteProgram nat
  | Call_useProgram "nat option"
  | Call_getUniformLocation "nat option" string
  | Call_getUniform "nat option" nat
  | Call_uniform_f nat nat "real option list"
  | Call_uniform_fv nat nat "real list"
  | Call_uniformMatrix4fv nat bool "real list option"
  | Call_uniformMatrix3fv nat bool "real list option"

text \<open>The names \<open>uniform<n>f\<close> and \<open>uniform<n>fv\<close> that the WebGL API has.\<close>

definition uniform_f_name :: "nat \<Rightarrow> glmethod option" where
  "uniform_f_name n =
     (if n = 1 then Some Uniform1f else if n = 2 then Some Uniform2f
      else if n = 3 then Some Uniform3f else if n = 4 then Some Uniform4f else None)"

definition uniform_fv_name :: "nat \<Rightarrow> glmethod option" where
  "uniform_fv_name n =
     (if n = 1 then Some Uniform1fv else if n = 2 then Some Uniform2fv
      else if n = 3 then Some Uniform3fv else if n = 4 then Some Uniform4fv else None)"

fun method_of :: "glcall \<Rightarrow> glmethod option" where
  "method_of Call_createBuffer = Some CreateBuffer"
| "method_of (Call_bindBuffer _ _) = Some BindBuffer"
| "method_of (Call_bufferData _ _ _) = Some BufferData"
| "method_of (Call_enableVertexAttribArray _) = Some EnableVertexAttribArray"
| "method_of (Call_vertexAttribPointer _ _ _ _ _ _) = Some VertexAttribPointer"
| "method_of (Call_disableVertexAttribArray _) = Some DisableVertexAttribArray"
| "method_of (Call_drawElements _ _ _ _) = Some DrawElements"
| "method_of (Call_drawArrays _ _ _) = Some DrawArrays"
| "method_of (Call_createShader _) = Some CreateShader"
| "method_of (Call_shaderSource _ _) = Some ShaderSource"
| "method_of (Call_compileShader _) = Some CompileShader"
| "method_of (Call_getShaderParameter _ _) = Some GetShaderParameter"
| "method_of (Call_getShaderInfoLog _) = Some GetShaderInfoLog"
| "method_of (Call_deleteShader _) = Some DeleteShader"
| "method_of Call_createProgram = Some CreateProgram"
| "method_of (Call_attachShader _ _) = Some AttachShader"
| "method_of (Call_linkProgram _) = Some LinkProgram"
| "method_of (Call_getProgramParameter _ _) = Some GetProgramParameter"
| "method_of (Call_getProgramInfoLog _) = Some GetProgramInfoLog"
| "method_of (Call_deleteProgram _) = Some DeleteProgram"
| "method_of (Call_useProgram _) = Some UseProgram"
| "method_of (Call_getUniformLocation _ _) = Some GetUniformLocation"
| "method_of (Call_getUniform _ _) = Some GetUniform"
| "method_of (Call_uniform_f n _ _) = uniform_f_name n"
| "method_of (Call_uniform_fv n _ _) = uniform_fv_name n"
| "method_of (Call_uniformMatrix4fv _ _ _) = Some UniformMatrix4fv"
| "method_of (Call_uniformMatrix3fv _ _ _) = Some UniformMatrix3fv"

text \<open>
  What \<open>gl.getUniform(program, loc)\<close> returns: null, a number or boolean (which has no
  \<open>length\<close>), or a typed array of some length (3 for a vec3, 4 for a vec4, 16 for a mat4).
\<close>

datatype uniform_reading = Reading_null | Reading_scalar | Reading_array nat

text \<open>
  A context: its identity, the methods it exposes, and the answers it gives. The answers
  are parameters: whether a source compiles as a stage of some kind, whether a program
  with the attached stages links, the location of a uniform name (\<open>None\<close> is null) and the
  current value of the uniform at a location.
\<close>

record glcontext =
  ctx_id :: nat
  has :: "glmethod \<Rightarrow> bool"
  compile_status :: "glenum option \<Rightarrow> string \<Rightarrow> bool"
  link_status :: "nat option list \<Rightarrow> bool"
  uniform_location :: "string \<Rightarrow> nat option"
  uniform_reading :: "nat \<Rightarrow> uniform_reading"

text \<open>A context argument: null or undefined, or an object.\<close>

datatype glarg = Null | Obj glcontext

datatype console_msg =
    Error_context_init string
  | Error_attribute_count string "jsnum option" jsnum
  | Error_not_initialized
  | Error_attribute_name string
  | Error_attribute_data string
  | Error_context_program
  | Error_compiling "glenum option"
  | Error_linking
  | Warn_uniform_not_found string
  | Warn_value_not_supported

text \<open>
  Everything outside the objects of the core: the calls made so far, each with the
  identity of the context that received it; the next handle a context gives out; the
  console; and the text of the document's elements by id.
\<close>

record world =
  calls :: "(nat \<times> glcall) list"
  fresh :: nat
  console :: "console_msg list"
  document :: "string \<Rightarrow> string option"

type_synonym 'a gl_result = "(error + 'a) \<times> world"

definition ret :: "'a \<Rightarrow> world \<Rightarrow> 'a gl_result" where
  "ret x w = (Inr x, w)"

definition throw :: "error \<Rightarrow> world \<Rightarrow> 'a gl_result" where
  "throw e w = (Inl e, w)"

text \<open>Sequencing: an exception ends the sequence and keeps the effects made so far.\<close>

definition bnd :: "(world \<Rightarrow> 'a gl_result) \<Rightarrow> ('a \<Rightarrow> world \<Rightarrow> 'b gl_result) \<Rightarrow> world \<Rightarrow> 'b gl_result" where
  "bnd m f w = (case m w of (Inl e, w1) \<Rightarrow> (Inl e, w1) | (Inr x, w1) \<Rightarrow> f x w1)"

definition log_console :: "console_msg \<Rightarrow> world \<Rightarrow> unit gl_result" where
  "log_console m w = (Inr (), w\<lparr>console := console w @ [m]\<rparr>)"

text \<open>
  \<open>gl.m(...)\<close>: a TypeError when the context has no function \<open>m\<close>, else the call is
  made. \<open>invoke_new\<close> is a call that returns a new handle.
\<close>

definition invoke :: "glcontext \<Rightarrow> glcall \<Rightarrow> world \<Rightarrow> unit gl_result" where
  "invoke c call w =
     (case method_of call of
        None \<Rightarrow> (Inl TypeError, w)
      | Some m \<Rightarrow>
          if has c m then (Inr (), w\<lparr>calls := calls w @ [(ctx_id c, call)]\<rparr>)
          else (Inl TypeError, w))"

definition invoke_new :: "glcontext \<Rightarrow> glcall \<Rightarrow> world \<Rightarrow> nat gl_result" where
  "invoke_new c call w =
     (case method_of call of
        None \<Rightarrow> (Inl TypeError, w)
      | Some m \<Rightarrow>
          if has c m
          then (Inr (fresh w), w\<lparr>calls := calls w @ [(ctx_id c, call)], fresh := Suc (fresh w)\<rparr>)
          else (Inl TypeError, w))"

section \<open>BufferGeometry.js\<close>

text \<open>
  An attribute \<open>{array, itemSize, normalize?}\<close>, to which \<open>init\<close> adds \<open>buffer\<close> and
  \<open>count\<close>. An index is the same object: \<open>setIndex\<close> wraps an array as
  \<open>{array, itemSize: 1}\<close>.
\<close>

record attribute =
  array :: "real list"
  itemSize :: nat
  normalize_attr :: bool
  buffer :: "nat option"
  count :: "jsnum option"

text \<open>The attributes are the entries of an object, in the order \<open>for ... in\<close> visits them.\<close>

record BufferGeometry =
  name :: string
  index :: "attribute option"
  attributes :: "(string \<times> attribute) list"
  gl :: "glcontext option"
  isInitialized :: bool

definition new_BufferGeometry :: BufferGeometry where
  "new_BufferGeometry =
     \<lparr>name = [], index = None, attributes = [], gl = None, isInitialized = False\<rparr>"

type_synonym geometry_result = "(error + unit) \<times> BufferGeometry \<times> world"

definition getAttribLocation :: "string \<Rightarrow> nat option" where
  "getAttribLocation key =
     (if key = ''position'' then Some 0
      else if key = ''color'' then Some 1
      else if key = ''normal'' then Some 1
      else if key = ''uv'' then Some 2
      else None)"

definition createBuffer :: "glcontext \<Rightarrow> real list \<Rightarrow> world \<Rightarrow> nat gl_result" where
  "createBuffer c arrayData =
     bnd (invoke_new c Call_createBuffer) (\<lambda>b.
     bnd (invoke c (Call_bindBuffer ARRAY_BUFFER (Some b))) (\<lambda>_.
     bnd (invoke c (Call_bufferData ARRAY_BUFFER (Float32Array_from arrayData) STATIC_DRAW)) (\<lambda>_.
     ret b)))"

definition createIndex :: "glcontext \<Rightarrow> real list \<Rightarrow> world \<Rightarrow> nat gl_result" where
  "createIndex c indices =
     bnd (invoke_new c Call_createBuffer) (\<lambda>indexBuffer.
     bnd (invoke c (Call_bindBuffer ELEMENT_ARRAY_BUFFER (Some indexBuffer))) (\<lambda>_.
     bnd (invoke c (Call_bufferData ELEMENT_ARRAY_BUFFER (Uint16Array_from indices) STATIC_DRAW)) (\<lambda>_.
     ret indexBuffer)))"

text \<open>\<open>location = 0\<close> is a default parameter: an undefined location becomes 0.\<close>

definition useBuffer :: "glcontext \<Rightarrow> nat option \<Rightarrow> nat \<Rightarrow> nat option \<Rightarrow> bool \<Rightarrow> world \<Rightarrow> unit gl_result" where
  "useBuffer c buf itemSz location normalize_arg =
     (let loc = (case location of None \<Rightarrow> 0 | Some l \<Rightarrow> l) in
      bnd (invoke c (Call_bindBuffer ARRAY_BUFFER buf)) (\<lambda>_.
      bnd (invoke c (Call_enableVertexAttribArray loc)) (\<lambda>_.
      bnd (invoke c (Call_vertexAttribPointer loc itemSz FLOAT normalize_arg 0 0)) (\<lambda>_.
      invoke c (Call_bindBuffer ARRAY_BUFFER None)))))"

definition disableBuffer :: "glcontext \<Rightarrow> nat option \<Rightarrow> world \<Rightarrow> unit gl_result" where
  "disableBuffer c location = invoke c (Call_disableVertexAttribArray location)"

text \<open>
  The first loop of \<open>init\<close>: a buffer and a count for every attribute; \<open>attrCount\<close> ends
  as the count of the last one. An exception leaves the attributes done so far changed.
\<close>

fun upload_attributes ::
  "glcontext \<Rightarrow> (string \<times> attribute) list \<Rightarrow> jsnum \<Rightarrow> world
     \<Rightarrow> error option \<times> (string \<times> attribute) list \<times> jsnum \<times> world" where
  "upload_attributes c [] attrCount w = (None, [], attrCount, w)"
| "upload_attributes c ((key, a) # rest) attrCount w =
     (case createBuffer c (array a) w of
        (Inl e, w1) \<Rightarrow> (Some e, (key, a) # rest, attrCount, w1)
      | (Inr b, w1) \<Rightarrow>
          (let cnt = js_divide (length (array a)) (itemSize a);
               a1 = a\<lparr>buffer := Some b, count := Some cnt\<rparr>
           in case upload_attributes c rest cnt w1 of
                (r, rest1, attrCount1, w2) \<Rightarrow> (r, (key, a1) # rest1, attrCount1, w2)))"

text \<open>The second loop: the first attribute whose count \<open>!== attrCount\<close>, if any.\<close>

fun check_counts :: "(string \<times> attribute) list \<Rightarrow> jsnum \<Rightarrow> (string \<times> attribute) option" where
  "check_counts [] attrCount = None"
| "check_counts ((key, a) # rest) attrCount =
     (if \<not> js_strict_eq (count a) (Some attrCount) then Some (key, a)
      else check_counts rest attrCount)"

text \<open>
  The getter \<open>hasIndex\<close>. Where \<open>init\<close> and \<open>draw\<close> test it and then read
  \<open>this.index\<close>, the model takes the two steps at once, by cases on \<open>index\<close>.
\<close>

definition hasIndex :: "BufferGeometry \<Rightarrow> bool" where
  "hasIndex g = (index g \<noteq> None)"

definition init :: "glarg \<Rightarrow> BufferGeometry \<Rightarrow> world \<Rightarrow> geometry_result" where
  "init gl_arg g w =
     (if isInitialized g then (Inr (), g, w)
      else case gl_arg of
        Null \<Rightarrow> (Inl TypeError, g, w)
      | Obj c \<Rightarrow>
          if \<not> has c GetParameter
          then (Inl InvalidContext, g, w\<lparr>console := console w @ [Error_context_init (name g)]\<rparr>)
          else
            (case upload_attributes c (attributes g) (Num 0) w of
               (Some e, attrs, attrCount, w1) \<Rightarrow>
                 (Inl e, g\<lparr>gl := Some c, attributes := attrs\<rparr>, w1)
             | (None, attrs, attrCount, w1) \<Rightarrow>
                 (let g1 = g\<lparr>gl := Some c, attributes := attrs\<rparr> in
                  case check_counts attrs attrCount of
                    Some (key, a) \<Rightarrow>
                      (Inl InconsistentAttributeCount, g1,
                       w1\<lparr>console := console w1 @ [Error_attribute_count key (count a) attrCount]\<rparr>)
                  | None \<Rightarrow>
                      (case index g1 of
                         None \<Rightarrow> (Inr (), g1\<lparr>isInitialized := True\<rparr>, w1)
                       | Some ix \<Rightarrow>
                           (case createIndex c (array ix) w1 of
                              (Inl e, w2) \<Rightarrow> (Inl e, g1, w2)
                            | (Inr b, w2) \<Rightarrow>
                                (Inr (),
                                 g1\<lparr>index := Some (ix\<lparr>buffer := Some b,
                                                         count := Some (Num (real (length (array ix))))\<rparr>),
                                    isInitialized := True\<rparr>,
                                 w2))))))"

fun bind_attributes :: "glcontext \<Rightarrow> (string \<times> attribute) list \<Rightarrow> world \<Rightarrow> unit gl_result" where
  "bind_attributes c [] w = (Inr (), w)"
| "bind_attributes c ((key, a) # rest) w =
     (case useBuffer c (buffer a) (itemSize a) (getAttribLocation key) (normalize_attr a) w of
        (Inl e, w1) \<Rightarrow> (Inl e, w1)
      | (Inr _, w1) \<Rightarrow> bind_attributes c rest w1)"

fun disable_attributes :: "glcontext \<Rightarrow> (string \<times> attribute) list \<Rightarrow> world \<Rightarrow> unit gl_result" where
  "disable_attributes c [] w = (Inr (), w)"
| "disable_attributes c ((key, a) # rest) w =
     (case disableBuffer c (getAttribLocation key) w of
        (Inl e, w1) \<Rightarrow> (Inl e, w1)
      | (Inr _, w1) \<Rightarrow> disable_attributes c rest w1)"

text \<open>
  The draw call of \<open>draw\<close>: indexed when there is an index, else over the count of
  \<open>attributes["position"]\<close>, whose absence is a TypeError.
\<close>

definition draw_dispatch :: "glcontext \<Rightarrow> BufferGeometry \<Rightarrow> world \<Rightarrow> unit gl_result" where
  "draw_dispatch c g =
     (case index g of
        Some ix \<Rightarrow>
          bnd (invoke c (Call_bindBuffer ELEMENT_ARRAY_BUFFER (buffer ix))) (\<lambda>_.
          invoke c (Call_drawElements TRIANGLES (count ix) UNSIGNED_SHORT 0))
      | None \<Rightarrow>
          (case map_of (attributes g) ''position'' of
             None \<Rightarrow> throw TypeError
           | Some p \<Rightarrow> invoke c (Call_drawArrays TRIANGLES 0 (count p))))"

definition draw :: "glarg \<Rightarrow> BufferGeometry \<Rightarrow> world \<Rightarrow> geometry_result" where
  "draw gl_arg g w =
     (case (case gl_arg of Null \<Rightarrow> (Inr (), g, w) | Obj c \<Rightarrow> init gl_arg g w) of
        (Inl e, g1, w1) \<Rightarrow> (Inl e, g1, w1)
      | (Inr _, g1, w1) \<Rightarrow>
          if \<not> isInitialized g1
          then (Inl NotInitialized, g1, w1\<lparr>console := console w1 @ [Error_not_initialized]\<rparr>)
          else
            (case gl g1 of
               None \<Rightarrow> (Inl TypeError, g1, w1)
             | Some c \<Rightarrow>
                 (case bnd (bind_attributes c (attributes g1)) (\<lambda>_.
                       bnd (draw_dispatch c g1) (\<lambda>_.
                       disable_attributes c (attributes g1))) w1 of
                    (r, w2) \<Rightarrow> (r, g1, w2))))"

text \<open>
  \<open>setIndex\<close> takes an array or typed array, which it wraps, or anything else, which
  it stores as it is: a prepared index object, or null.
\<close>

datatype index_arg = Index_array "real list" | Index_object "attribute option"

definition setIndex :: "index_arg \<Rightarrow> BufferGeometry \<Rightarrow> BufferGeometry" where
  "setIndex ix g =
     (case ix of
        Index_array xs \<Rightarrow>
          g\<lparr>index := Some \<lparr>array = xs, itemSize = 1, normalize_attr = False,
                             buffer = None, count = None\<rparr>\<rparr>
      | Index_object obj \<Rightarrow> g\<lparr>index := obj\<rparr>)"

text \<open>
  The argument of \<open>setAttribute\<close>: undefined (\<open>None\<close>), or an object whose \<open>array\<close> and
  \<open>itemSize\<close> may be undefined.
\<close>

record attribute_data =
  data_array :: "real list option"
  data_itemSize :: "nat option"
  data_normalize :: bool

fun assign_attribute :: "string \<Rightarrow> attribute \<Rightarrow> (string \<times> attribute) list \<Rightarrow> (string \<times> attribute) list" where
  "assign_attribute key a [] = [(key, a)]"
| "assign_attribute key a ((k, b) # rest) =
     (if k = key then (key, a) # rest else (k, b) # assign_attribute key a rest)"

definition setAttribute :: "string \<Rightarrow> attribute_data option \<Rightarrow> BufferGeometry \<Rightarrow> world \<Rightarrow> geometry_result" where
  "setAttribute key attr g w =
     (if getAttribLocation key = None
      then (Inl InvalidAttributeName, g, w\<lparr>console := console w @ [Error_attribute_name key]\<rparr>)
      else case attr of
        None \<Rightarrow> (Inl MalformedAttributeData, g, w\<lparr>console := console w @ [Error_attribute_data key]\<rparr>)
      | Some d \<Rightarrow>
          (case (data_array d, data_itemSize d) of
             (Some xs, Some n) \<Rightarrow>
               (Inr (),
                g\<lparr>attributes := assign_attribute key
                     \<lparr>array = xs, itemSize = n, normalize_attr = data_normalize d,
                      buffer = None, count = None\<rparr> (attributes g)\<rparr>,
                w)
           | _ \<Rightarrow> (Inl MalformedAttributeData, g, w\<lparr>console := console w @ [Error_attribute_data key]\<rparr>)))"

definition deleteAttribute :: "string \<Rightarrow> BufferGeometry \<Rightarrow> BufferGeometry" where
  "deleteAttribute key g = g\<lparr>attributes := filter (\<lambda>(k, a). k \<noteq> key) (attributes g)\<rparr>"

text \<open>
  Every attribute has an item size from 1 to 4, as \<open>setAttribute\<close> documents, and an
  array of a length below \<open>2^32\<close>, as every Array has: the range in which the exact
  quotient of \<open>js_divide\<close> and the double of the source are different together.
\<close>

definition sizes_in_range :: "BufferGeometry \<Rightarrow> bool" where
  "sizes_in_range g =
     list_all (\<lambda>(key, a). 1 \<le> itemSize a \<and> itemSize a \<le> 4 \<and> length (array a) < 2 ^ 32)
       (attributes g)"

text \<open>The operations a host has on a geometry, and a host that runs some of them, catching every exception.\<close>

datatype geometry_op =
    Op_init glarg
  | Op_draw glarg
  | Op_setIndex index_arg
  | Op_setAttribute string "attribute_data option"
  | Op_deleteAttribute string

fun apply_op :: "geometry_op \<Rightarrow> BufferGeometry \<Rightarrow> world \<Rightarrow> geometry_result" where
  "apply_op (Op_init a) g w = init a g w"
| "apply_op (Op_draw a) g w = draw a g w"
| "apply_op (Op_setIndex ix) g w = (Inr (), setIndex ix g, w)"
| "apply_op (Op_setAttribute key d) g w = setAttribute key d g w"
| "apply_op (Op_deleteAttribute key) g w = (Inr (), deleteAttribute key g, w)"

fun run_ops :: "geometry_op list \<Rightarrow> BufferGeometry \<Rightarrow> world \<Rightarrow> BufferGeometry \<times> world" where
  "run_ops [] g w = (g, w)"
| "run_ops (op # ops) g w = (case apply_op op g w of (r, g1, w1) \<Rightarrow> run_ops ops g1 w1)"

text \<open>A draw call, as opposed to every other call on the context.\<close>

fun is_draw_call :: "glcall \<Rightarrow> bool" where
  "is_draw_call (Call_drawElements _ _ _ _) = True"
| "is_draw_call (Call_drawArrays _ _ _) = True"
| "is_draw_call _ = False"

definition draw_calls :: "world \<Rightarrow> glcall list" where
  "draw_calls w = filter is_draw_call (map snd (calls w))"

section \<open>ShaderHelper.js\<close>

definition COMPILE_STATUS :: nat where
  "COMPILE_STATUS = 35713"

definition LINK_STATUS :: nat where
  "LINK_STATUS = 35714"

text \<open>
  \<open>loadShader\<close>: the new shader, or null (\<open>None\<close>) when it does not compile, after its
  deletion. The string naming the stage kind is used in the message only.
\<close>

definition loadShader :: "glcontext \<Rightarrow> string \<Rightarrow> glenum option \<Rightarrow> world \<Rightarrow> nat option gl_result" where
  "loadShader c shaderSource shaderType =
     bnd (invoke_new c (Call_createShader shaderType)) (\<lambda>shader.
     bnd (invoke c (Call_shaderSource shader shaderSource)) (\<lambda>_.
     bnd (invoke c (Call_compileShader shader)) (\<lambda>_.
     bnd (invoke c (Call_getShaderParameter shader COMPILE_STATUS)) (\<lambda>_.
     if \<not> compile_status c shaderType shaderSource
     then
       bnd (invoke c (Call_getShaderInfoLog shader)) (\<lambda>_.
       bnd (log_console (Error_compiling shaderType)) (\<lambda>_.
       bnd (invoke c (Call_deleteShader (Some shader))) (\<lambda>_.
       ret None)))
     else ret (Some shader)))))"

text \<open>
  \<open>gl[defaultShaderType[ndx]]\<close>: the vertex stage at 0, the fragment stage at 1, and
  undefined from 2 on.
\<close>

definition defaultShaderType :: "nat \<Rightarrow> glenum option" where
  "defaultShaderType ndx =
     (if ndx = 0 then Some VERTEX_SHADER else if ndx = 1 then Some FRAGMENT_SHADER else None)"

text \<open>
  An element of \<open>shaders\<close>: a string (a source, or the id of an element that holds
  one) or a compiled shader.
\<close>

datatype stage = Source string | Handle nat

text \<open>
  The loop of \<open>createProgram\<close> that fills \<open>realShaders\<close>. The \<open>push\<close> stands inside
  the branch of the strings, so an element that is not a string adds nothing.
\<close>

fun compile_stages :: "glcontext \<Rightarrow> nat \<Rightarrow> stage list \<Rightarrow> world \<Rightarrow> nat option list gl_result" where
  "compile_stages c ndx [] w = (Inr [], w)"
| "compile_stages c ndx (Handle h # rest) w = compile_stages c (Suc ndx) rest w"
| "compile_stages c ndx (Source s # rest) w =
     (let src = (case document w s of Some txt \<Rightarrow> txt | None \<Rightarrow> s) in
      case loadShader c src (defaultShaderType ndx) w of
        (Inl e, w1) \<Rightarrow> (Inl e, w1)
      | (Inr shader, w1) \<Rightarrow>
          (case compile_stages c (Suc ndx) rest w1 of
             (Inl e, w2) \<Rightarrow> (Inl e, w2)
           | (Inr realShaders, w2) \<Rightarrow> (Inr (shader # realShaders), w2)))"

fun attach_all :: "glcontext \<Rightarrow> nat \<Rightarrow> nat option list \<Rightarrow> world \<Rightarrow> unit gl_result" where
  "attach_all c prog [] w = (Inr (), w)"
| "attach_all c prog (shader # rest) w =
     (case invoke c (Call_attachShader prog shader) w of
        (Inl e, w1) \<Rightarrow> (Inl e, w1)
      | (Inr _, w1) \<Rightarrow> attach_all c prog rest w1)"

fun deleteShaders :: "glcontext \<Rightarrow> nat option list \<Rightarrow> world \<Rightarrow> unit gl_result" where
  "deleteShaders c [] w = (Inr (), w)"
| "deleteShaders c (shader # rest) w =
     (case invoke c (Call_deleteShader shader) w of
        (Inl e, w1) \<Rightarrow> (Inl e, w1)
      | (Inr _, w1) \<Rightarrow> deleteShaders c rest w1)"

definition createProgram :: "glcontext \<Rightarrow> stage list \<Rightarrow> world \<Rightarrow> nat option gl_result" where
  "createProgram c shaders =
     bnd (compile_stages c 0 shaders) (\<lambda>realShaders.
     bnd (invoke_new c Call_createProgram) (\<lambda>prog.
     bnd (attach_all c prog realShaders) (\<lambda>_.
     bnd (invoke c (Call_linkProgram prog)) (\<lambda>_.
     bnd (invoke c (Call_getProgramParameter prog LINK_STATUS)) (\<lambda>_.
     if \<not> link_status c realShaders
     then
       bnd (invoke c (Call_getProgramInfoLog prog)) (\<lambda>_.
       bnd (log_console Error_linking) (\<lambda>_.
       bnd (invoke c (Call_deleteProgram prog)) (\<lambda>_.
       bnd (deleteShaders c realShaders) (\<lambda>_.
       ret None))))
     else ret (Some prog))))))"

text \<open>The shaders that a list of calls attaches, in order.\<close>

fun attached :: "glcall list \<Rightarrow> nat option list" where
  "attached [] = []"
| "attached (Call_attachShader p s # rest) = s # attached rest"
| "attached (_ # rest) = attached rest"

section \<open>WebGLProgram.js\<close>

text \<open>The two sources of the module, \<open>vs\<close> and \<open>fs\<close>, line by line.\<close>

definition newline :: string where
  "newline = [CHR 0x0A]"

definition vs :: string where
  "vs = concat (map (\<lambda>l. l @ newline)
     [''#version 300 es'',
      ''layout(location=0) in vec3 position;'',
      ''layout(location=1) in vec3 color;'',
      ''uniform mat4 modelMatrix;'',
      [],
      ''out vec3 v_color;'',
      [],
      ''void main() {'',
      ''  gl_Position = modelMatrix * vec4( position, 1.0 );'',
      ''  v_color = color;'',
      ''}''])"

definition fs :: string where
  "fs = concat (map (\<lambda>l. l @ newline)
     [''#version 300 es'',
      ''precision highp float;'',
      [],
      ''uniform float useUniformColor; // use uniform color if this is 1, otherwise use the color attribute (default)'',
      ''uniform vec4 color; // color input'',
      ''out vec4 fragColor; // fragment color output'',
      [],
      ''in vec3 v_color;'',
      [],
      [],
      ''void main() {'',
      ''    vec3 _color = (useUniformColor > 0.0) ? color.rgb : v_color.rgb;'',
      ''    fragColor = vec4( _color.rgb, 1.0 ); // only assign the fragment color'',
      ''}''])"

record WebGLProgram =
  gl_prog :: glcontext
  vertexShader :: string
  fragmentShader :: string
  program :: "nat option"

definition WebGLProgram_constructor :: "glarg \<Rightarrow> world \<Rightarrow> WebGLProgram gl_result" where
  "WebGLProgram_constructor gl_arg =
     (case gl_arg of
        Null \<Rightarrow> throw TypeError
      | Obj c \<Rightarrow>
          if \<not> has c GetParameter
          then bnd (log_console Error_context_program) (\<lambda>_. throw InvalidContext)
          else
            bnd (createProgram c [Source vs, Source fs]) (\<lambda>p.
            ret \<lparr>gl_prog = c, vertexShader = vs, fragmentShader = fs, program = p\<rparr>))"

definition use :: "WebGLProgram \<Rightarrow> world \<Rightarrow> unit gl_result" where
  "use this = invoke (gl_prog this) (Call_useProgram (program this))"

text \<open>
  An object given to \<open>setUniform\<close>: the markers it exposes (a marker counts when it is
  truthy) and the properties the branches read, each possibly undefined. A value that
  exposes no marker at all (a string, a plain object) is an object with every marker
  false. \<open>has_constructor\<close> says that \<open>value.constructor\<close> is neither undefined nor
  null, which the last branch needs to read \<open>value.constructor.name\<close>; it is false of
  \<open>Object.create(null)\<close>.
\<close>

record jsobject =
  has_constructor :: bool
  isColor :: bool
  isMatrix4 :: bool
  isMatrix3 :: bool
  isVector3 :: bool
  isVector4 :: bool
  prop_r :: "real option"
  prop_g :: "real option"
  prop_b :: "real option"
  prop_x :: "real option"
  prop_y :: "real option"
  prop_z :: "real option"
  prop_w :: "real option"
  elements :: "real list option"

text \<open>
  The values of \<open>setUniform\<close>. A typed array (a Float32Array) is an object that is not
  \<open>instanceof Array\<close> and exposes no marker; null and undefined are \<open>V_nullish\<close>.
\<close>

datatype uniform_value =
    V_number real
  | V_boolean bool
  | V_array "real list"
  | V_typed_array "real list"
  | V_nullish
  | V_object jsobject

text \<open>\<open>type.length\<close>: a TypeError on null, undefined on a number, the length of an array.\<close>

fun type_length :: "uniform_reading \<Rightarrow> error + nat option" where
  "type_length Reading_null = Inl TypeError"
| "type_length Reading_scalar = Inr None"
| "type_length (Reading_array n) = Inr (Some n)"

text \<open>
  The chain of branches of \<open>setUniform\<close>, in the source's order. The colour branch
  builds the name \<open>uniform<uniformLength>f\<close>, which names nothing when the length is
  undefined, and always passes \<open>r, g, b, 1.0\<close>. The last branch builds its message from
  \<open>value.constructor.name\<close> before it warns: a TypeError when there is no constructor.
  A typed array has one.
\<close>

definition dispatch_uniform :: "glcontext \<Rightarrow> nat \<Rightarrow> nat option \<Rightarrow> uniform_value \<Rightarrow> world \<Rightarrow> unit gl_result" where
  "dispatch_uniform c loc uniformLength v =
     (case v of
        V_number x \<Rightarrow> invoke c (Call_uniform_f 1 loc [Some x])
      | V_boolean b \<Rightarrow> invoke c (Call_uniform_f 1 loc [Some (if b then 1 else 0)])
      | V_array xs \<Rightarrow> invoke c (Call_uniform_fv (length xs) loc xs)
      | V_typed_array xs \<Rightarrow> log_console Warn_value_not_supported
      | V_nullish \<Rightarrow> throw TypeError
      | V_object obj \<Rightarrow>
          if isColor obj then
            (case uniformLength of
               None \<Rightarrow> throw TypeError
             | Some n \<Rightarrow> invoke c (Call_uniform_f n loc [prop_r obj, prop_g obj, prop_b obj, Some 1]))
          else if isMatrix4 obj then invoke c (Call_uniformMatrix4fv loc False (elements obj))
          else if isMatrix3 obj then invoke c (Call_uniformMatrix3fv loc False (elements obj))
          else if isVector3 obj then
            invoke c (Call_uniform_f 3 loc [prop_x obj, prop_y obj, prop_z obj])
          else if isVector4 obj then
            invoke c (Call_uniform_f 4 loc [prop_x obj, prop_y obj, prop_z obj, prop_w obj])
          else if has_constructor obj then log_console Warn_value_not_supported
          else throw TypeError)"

definition setUniform :: "WebGLProgram \<Rightarrow> string \<Rightarrow> uniform_value \<Rightarrow> world \<Rightarrow> unit gl_result" where
  "setUniform this uname v =
     (let c = gl_prog this in
      bnd (invoke c (Call_getUniformLocation (program this) uname)) (\<lambda>_.
      case uniform_location c uname of
        None \<Rightarrow> log_console (Warn_uniform_not_found uname)
      | Some loc \<Rightarrow>
          bnd (invoke c (Call_getUniform (program this) loc)) (\<lambda>_.
          case type_length (uniform_reading c loc) of
            Inl e \<Rightarrow> throw e
          | Inr uniformLength \<Rightarrow> dispatch_uniform c loc uniformLength v)))"

text \<open>
  What a setter \<open>uniform<n>f(loc, v0, v1, ...)\<close> of the WebGL API reads: its first \<open>n\<close>
  values. Arguments beyond them are ignored, as for every function of the API.
\<close>

definition components_read :: "glcall \<Rightarrow> real option list" where
  "components_read call = (case call of Call_uniform_f n loc args \<Rightarrow> take n args | _ \<Rightarrow> [])"

section \<open>Observing the calls\<close>

text \<open>The calls that \<open>w'\<close> has beyond those of \<open>w\<close>, and that they all satisfy \<open>P\<close>.\<close>

definition new_calls :: "world \<Rightarrow> world \<Rightarrow> (nat \<times> glcall) list" where
  "new_calls w w' = drop (length (calls w)) (calls w')"

definition adds_only :: "(nat \<times> glcall \<Rightarrow> bool) \<Rightarrow> world \<Rightarrow> world \<Rightarrow> bool" where
  "adds_only P w w' = (calls w' = calls w @ new_calls w w' \<and> list_all P (new_calls w w'))"

definition calls_through :: "glcontext \<Rightarrow> world \<Rightarrow> world \<Rightarrow> bool" where
  "calls_through c = adds_only (\<lambda>e. fst e = ctx_id c)"

text \<open>A computation that only adds calls that satisfy \<open>P\<close>, whatever it returns.\<close>

definition only_adds :: "(nat \<times> glcall \<Rightarrow> bool) \<Rightarrow> (world \<Rightarrow> 'a gl_result) \<Rightarrow> bool" where
  "only_adds P m = (\<forall>w. adds_only P w (snd (m w)))"

text \<open>
  The calls that create or fill a buffer, the calls that set a uniform, and the elements
  of a list of stages that are compiled shaders.
\<close>

fun is_upload_call :: "glcall \<Rightarrow> bool" where
  "is_upload_call Call_createBuffer = True"
| "is_upload_call (Call_bufferData _ _ _) = True"
| "is_upload_call _ = False"

fun is_uniform_set_call :: "glcall \<Rightarrow> bool" where
  "is_uniform_set_call (Call_uniform_f _ _ _) = True"
| "is_uniform_set_call (Call_uniform_fv _ _ _) = True"
| "is_uniform_set_call (Call_uniformMatrix4fv _ _ _) = True"
| "is_uniform_set_call (Call_uniformMatrix3fv _ _ _) = True"
| "is_uniform_set_call _ = False"

definition uniform_set_calls :: "world \<Rightarrow> glcall list" where
  "uniform_set_calls w = filter is_uniform_set_call (map snd (calls w))"

fun is_handle :: "stage \<Rightarrow> bool" where
  "is_handle (Handle _) = True"
| "is_handle (Source _) = False"

section \<open>Example objects\<close>

text \<open>
  A context that exposes every method, on which everything compiles and links, and whose
  uniforms are all at location 0 and read as a vec3; a second context with another
  identity; contexts that lack one method each, \<open>createBuffer\<close>, \<open>getParameter\<close> or
  \<open>createShader\<close>; and a context whose uniforms read as a vec4.
\<close>

definition full_context :: glcontext where
  "full_context =
     \<lparr>ctx_id = 1, has = (\<lambda>m. True), compile_status = (\<lambda>k s. True),
      link_status = (\<lambda>ss. True), uniform_location = (\<lambda>n. Some 0),
      uniform_reading = (\<lambda>l. Reading_array 3)\<rparr>"

definition other_context :: glcontext where
  "other_context = full_context\<lparr>ctx_id := 2\<rparr>"

definition no_buffer_context :: glcontext where
  "no_buffer_context = full_context\<lparr>has := (\<lambda>m. m \<noteq> CreateBuffer)\<rparr>"

definition no_parameter_context :: glcontext where
  "no_parameter_context = full_context\<lparr>has := (\<lambda>m. m \<noteq> GetParameter)\<rparr>"

definition no_shader_context :: glcontext where
  "no_shader_context = full_context\<lparr>has := (\<lambda>m. m \<noteq> CreateShader)\<rparr>"

definition vec4_context :: glcontext where
  "vec4_context = full_context\<lparr>uniform_reading := (\<lambda>l. Reading_array 4)\<rparr>"

definition empty_world :: world where
  "empty_world = \<lparr>calls = [], fresh = 0, console = [], document = (\<lambda>i. None)\<rparr>"

definition mk_attribute :: "real list \<Rightarrow> nat \<Rightarrow> attribute" where
  "mk_attribute xs n =
     \<lparr>array = xs, itemSize = n, normalize_attr = False, buffer = None, count = None\<rparr>"

text \<open>
  A triangle (9 floats of positions); a quad of 4 positions with the index list
  \<open>[0,1,2,2,1,3]\<close>; a geometry whose position has 3 elements and whose color has 1; and
  a geometry with a color and no position.
\<close>

definition triangle :: BufferGeometry where
  "triangle = new_BufferGeometry
     \<lparr>attributes := [(''position'', mk_attribute [0, 0, 0, 1, 0, 0, 0, 1, 0] 3)]\<rparr>"

definition quad :: BufferGeometry where
  "quad = new_BufferGeometry
     \<lparr>index := Some (mk_attribute [0, 1, 2, 2, 1, 3] 1),
      attributes := [(''position'', mk_attribute [0, 0, 0, 1, 0, 0, 0, 1, 0, 1, 1, 0] 3)]\<rparr>"

definition mismatched :: BufferGeometry where
  "mismatched = new_BufferGeometry
     \<lparr>attributes := [(''position'', mk_attribute [0, 0, 0, 1, 0, 0, 0, 1, 0] 3),
                      (''color'', mk_attribute [1, 0, 0] 3)]\<rparr>"


text \<open>The mismatched geometry after one \<open>init\<close>, and after a second one on the result.\<close>

definition mismatched_once :: geometry_result where
  "mismatched_once = init (Obj full_context) mismatched empty_world"

definition mismatched_twice :: geometry_result where
  "mismatched_twice = init (Obj full_context) (fst (snd mismatched_once)) (snd (snd mismatched_once))"

text \<open>The triangle after \<open>init\<close>, and what a host may do next with another context.\<close>

definition triangle_ready :: geometry_result where
  "triangle_ready = init (Obj full_context) triangle empty_world"

definition later_ops :: "geometry_op list" where
  "later_ops =
     [Op_draw (Obj other_context), Op_init (Obj other_context),
      Op_setIndex (Index_array [0, 1, 2]), Op_draw Null]"



text \<open>A program on the full context, one on the vec4 context, and a color.\<close>

definition example_program :: WebGLProgram where
  "example_program =
     \<lparr>gl_prog = full_context, vertexShader = vs, fragmentShader = fs, program = Some 2\<rparr>"

definition vec4_program :: WebGLProgram where
  "vec4_program = example_program\<lparr>gl_prog := vec4_context\<rparr>"

definition orange :: jsobject where
  "orange =
     \<lparr>has_constructor = True, isColor = True, isMatrix4 = False, isMatrix3 = False, isVector3 = False,
      isVector4 = False, prop_r = Some 1, prop_g = Some (1 / 2), prop_b = Some 0,
      prop_x = None, prop_y = None, prop_z = None, prop_w = None, elements = None\<rparr>"

section \<open>The calls a computation adds\<close>

lemma adds_only_refl: "adds_only P w w"
  by (simp add: adds_only_def new_calls_def)

lemma adds_only_iff: "adds_only P w w' \<longleftrightarrow> (\<exists>new. calls w' = calls w @ new \<and> list_all P new)"
  by (auto simp: adds_only_def new_calls_def)

lemma adds_only_same: "calls w' = calls w \<Longrightarrow> adds_only P w w'"
  by (simp add: adds_only_iff)

lemma adds_only_console [simp]: "adds_only P w (w1\<lparr>console := x\<rparr>) = adds_only P w w1"
  by (simp add: adds_only_def new_calls_def)

lemma adds_only_trans: "adds_only P w w1 \<Longrightarrow> adds_only P w1 w2 \<Longrightarrow> adds_only P w w2"
  by (auto simp: adds_only_iff)

lemma only_adds_ret: "only_adds P (ret x)"
  by (simp add: only_adds_def ret_def adds_only_refl)

lemma only_adds_throw: "only_adds P (throw e)"
  by (simp add: only_adds_def throw_def adds_only_refl)

lemma only_adds_log_console: "only_adds P (log_console m)"
  by (simp add: only_adds_def log_console_def adds_only_iff)

lemma only_adds_invoke: "P (ctx_id c, call) \<Longrightarrow> only_adds P (invoke c call)"
  by (simp add: only_adds_def invoke_def adds_only_iff split: option.splits)

lemma only_adds_invoke_new: "P (ctx_id c, call) \<Longrightarrow> only_adds P (invoke_new c call)"
  by (simp add: only_adds_def invoke_new_def adds_only_iff split: option.splits)

lemma only_adds_bnd: "only_adds P m \<Longrightarrow> (\<And>x. only_adds P (f x)) \<Longrightarrow> only_adds P (bnd m f)"
  unfolding only_adds_def bnd_def
proof (intro allI)
  fix w
  assume m: "\<forall>w. adds_only P w (snd (m w))" and f: "\<And>x. \<forall>w. adds_only P w (snd (f x w))"
  show "adds_only P w (snd (case m w of (Inl e, w1) \<Rightarrow> (Inl e, w1) | (Inr x, w1) \<Rightarrow> f x w1))"
  proof (cases "m w")
    case (Pair r w1)
    with m have 1: "adds_only P w w1" by (metis snd_conv)
    show ?thesis
    proof (cases r)
      case (Inl e) with Pair 1 show ?thesis by simp
    next
      case (Inr x)
      with f have "adds_only P w1 (snd (f x w1))" by blast
      with 1 Pair Inr show ?thesis by (simp add: adds_only_trans[OF 1])
    qed
  qed
qed

lemma only_addsD: "only_adds P m \<Longrightarrow> m w = (r, w') \<Longrightarrow> adds_only P w w'"
  by (metis only_adds_def snd_conv)

lemmas only_adds_intros = only_adds_bnd only_adds_ret only_adds_throw only_adds_log_console
  only_adds_invoke only_adds_invoke_new

subsection \<open>The calls of init\<close>

lemma only_adds_createBuffer:
  "(\<And>call. \<not> is_draw_call call \<Longrightarrow> P (ctx_id c, call)) \<Longrightarrow> only_adds P (createBuffer c xs)"
  unfolding createBuffer_def by (intro only_adds_intros) simp_all

lemma only_adds_createIndex:
  "(\<And>call. \<not> is_draw_call call \<Longrightarrow> P (ctx_id c, call)) \<Longrightarrow> only_adds P (createIndex c xs)"
  unfolding createIndex_def by (intro only_adds_intros) simp_all

lemma upload_attributes_adds:
  assumes P: "\<And>call. \<not> is_draw_call call \<Longrightarrow> P (ctx_id c, call)"
  shows "upload_attributes c xs n w = (r, xs', n', w') \<Longrightarrow> adds_only P w w'"
proof (induction xs arbitrary: n w r xs' n' w')
  case Nil
  then show ?case by (simp add: adds_only_refl)
next
  case (Cons x xs)
  obtain key a where x: "x = (key, a)" by (cases x)
  obtain rb w1 where cb: "createBuffer c (array a) w = (rb, w1)" by (cases "createBuffer c (array a) w")
  have 1: "adds_only P w w1"
    using only_addsD[OF only_adds_createBuffer[of P c], OF P cb] .
  show ?case
  proof (cases rb)
    case (Inl e)
    with Cons.prems x cb 1 show ?thesis by simp
  next
    case (Inr b)
    obtain r2 xs2 n2 w2 where rec:
      "upload_attributes c xs (js_divide (length (array a)) (itemSize a)) w1 = (r2, xs2, n2, w2)"
      by (metis prod_cases4)
    from Cons.IH[OF rec] have "adds_only P w1 w2" .
    with 1 have "adds_only P w w2" by (rule adds_only_trans)
    with Cons.prems x cb Inr rec show ?thesis by (simp add: Let_def)
  qed
qed

lemma init_adds:
  assumes P: "\<And>call. \<not> is_draw_call call \<Longrightarrow> P (ctx_id c, call)"
    and run: "init (Obj c) g w = (r, g', w')"
  shows "adds_only P w w'"
proof (cases "isInitialized g \<or> \<not> has c GetParameter")
  case True
  with run show ?thesis by (auto simp: init_def intro: adds_only_same split: if_splits)
next
  case False
  obtain r1 xs1 n1 w1 where up: "upload_attributes c (attributes g) (Num 0) w = (r1, xs1, n1, w1)"
    by (metis prod_cases4)
  have 1: "adds_only P w w1" using upload_attributes_adds[of P c, OF P up] .
  show ?thesis
  proof (cases r1)
    case (Some e)
    with run False up 1 show ?thesis by (simp add: init_def)
  next
    case None
    show ?thesis
    proof (cases "check_counts xs1 n1")
      case (Some ka)
      with run False up None 1 show ?thesis
        by (auto simp: init_def Let_def split: prod.splits)
    next
      case cc: None
      show ?thesis
      proof (cases "index g")
        case None
        with run False up \<open>r1 = None\<close> cc 1 show ?thesis by (simp add: init_def Let_def)
      next
        case (Some ix)
        obtain rb w2 where ci: "createIndex c (array ix) w1 = (rb, w2)" by (cases "createIndex c (array ix) w1")
        have "adds_only P w1 w2" using only_addsD[OF only_adds_createIndex[of P c], OF P ci] .
        with 1 have "adds_only P w w2" by (rule adds_only_trans)
        with run False up \<open>r1 = None\<close> cc Some ci show ?thesis
          by (cases rb) (simp_all add: init_def Let_def)
      qed
    qed
  qed
qed

lemma init_error_flag: "init a g w = (Inl e, g', w') \<Longrightarrow> \<not> isInitialized g'"
  by (auto simp: init_def Let_def split: if_splits glarg.splits prod.splits option.splits sum.splits)

lemma init_ok_flag: "init a g w = (Inr u, g', w') \<Longrightarrow> isInitialized g'"
  by (auto simp: init_def Let_def split: if_splits glarg.splits prod.splits option.splits sum.splits)

lemma init_ok_gl: "\<not> isInitialized g \<Longrightarrow> init (Obj c) g w = (Inr u, g', w') \<Longrightarrow> gl g' = Some c"
  by (auto simp: init_def Let_def split: if_splits glarg.splits prod.splits option.splits sum.splits)

lemma init_initialized: "isInitialized g \<Longrightarrow> init a g w = (Inr (), g, w)"
  by (simp add: init_def)


subsection \<open>The calls of draw on an initialized geometry\<close>

lemma only_adds_fun: "(\<And>w r w'. m w = (r, w') \<Longrightarrow> adds_only P w w') \<Longrightarrow> only_adds P m"
  unfolding only_adds_def by (metis prod.collapse)

lemma only_adds_useBuffer:
  "(\<And>call. \<not> is_upload_call call \<Longrightarrow> P (ctx_id c, call)) \<Longrightarrow> only_adds P (useBuffer c b n l nz)"
  unfolding useBuffer_def Let_def by (intro only_adds_intros) simp_all

lemma only_adds_disableBuffer:
  "(\<And>call. \<not> is_upload_call call \<Longrightarrow> P (ctx_id c, call)) \<Longrightarrow> only_adds P (disableBuffer c l)"
  unfolding disableBuffer_def by (intro only_adds_intros) simp_all

lemma bind_attributes_adds:
  assumes P: "\<And>call. \<not> is_upload_call call \<Longrightarrow> P (ctx_id c, call)"
  shows "bind_attributes c xs w = (r, w') \<Longrightarrow> adds_only P w w'"
proof (induction xs arbitrary: w)
  case Nil
  then show ?case by (simp add: adds_only_refl)
next
  case (Cons x xs)
  obtain key a where x: "x = (key, a)" by (cases x)
  obtain r1 w1 where ub:
    "useBuffer c (buffer a) (itemSize a) (getAttribLocation key) (normalize_attr a) w = (r1, w1)"
    by (metis prod.collapse)
  have 1: "adds_only P w w1" using only_addsD[OF only_adds_useBuffer[of P c], OF P ub] .
  show ?case
  proof (cases r1)
    case (Inl e)
    with Cons.prems x ub 1 show ?thesis by simp
  next
    case (Inr u)
    with Cons.prems x ub have "bind_attributes c xs w1 = (r, w')" by simp
    from Cons.IH[OF this] 1 show ?thesis by (metis adds_only_trans)
  qed
qed

lemma disable_attributes_adds:
  assumes P: "\<And>call. \<not> is_upload_call call \<Longrightarrow> P (ctx_id c, call)"
  shows "disable_attributes c xs w = (r, w') \<Longrightarrow> adds_only P w w'"
proof (induction xs arbitrary: w)
  case Nil
  then show ?case by (simp add: adds_only_refl)
next
  case (Cons x xs)
  obtain key a where x: "x = (key, a)" by (cases x)
  obtain r1 w1 where ub: "disableBuffer c (getAttribLocation key) w = (r1, w1)"
    by (metis prod.collapse)
  have 1: "adds_only P w w1" using only_addsD[OF only_adds_disableBuffer[of P c], OF P ub] .
  show ?case
  proof (cases r1)
    case (Inl e)
    with Cons.prems x ub 1 show ?thesis by simp
  next
    case (Inr u)
    with Cons.prems x ub have "disable_attributes c xs w1 = (r, w')" by simp
    from Cons.IH[OF this] 1 show ?thesis by (metis adds_only_trans)
  qed
qed

lemma only_adds_draw_dispatch:
  "(\<And>call. \<not> is_upload_call call \<Longrightarrow> P (ctx_id c, call)) \<Longrightarrow> only_adds P (draw_dispatch c g)"
  unfolding draw_dispatch_def by (auto split: option.splits intro!: only_adds_intros)

lemma draw_initialized:
  assumes P: "\<And>call. \<not> is_upload_call call \<Longrightarrow> P (ctx_id c, call)"
    and g: "isInitialized g" "gl g = Some c"
    and run: "draw a g w = (r, g', w')"
  shows "g' = g \<and> adds_only P w w'"
proof -
  let ?m = "bnd (bind_attributes c (attributes g)) (\<lambda>_.
            bnd (draw_dispatch c g) (\<lambda>_. disable_attributes c (attributes g)))"
  have m: "only_adds P ?m"
    by (intro only_adds_bnd only_adds_draw_dispatch only_adds_fun
          bind_attributes_adds[of P c] disable_attributes_adds[of P c] P)
  have pre: "(case a of Null \<Rightarrow> (Inr (), g, w) | Obj c' \<Rightarrow> init a g w) = (Inr (), g, w)"
    using g by (simp add: init_initialized split: glarg.splits)
  have "draw a g w = (fst (?m w), g, snd (?m w))"
    unfolding draw_def pre using g by (simp add: case_prod_unfold)
  with run have "g' = g" "w' = snd (?m w)" by auto
  with m show ?thesis by (simp add: only_adds_def)
qed

lemma apply_op_initialized:
  assumes P: "\<And>call. \<not> is_upload_call call \<Longrightarrow> P (ctx_id c, call)"
    and g: "isInitialized g" "gl g = Some c"
    and run: "apply_op op g w = (r, g', w')"
  shows "isInitialized g' \<and> gl g' = Some c \<and> adds_only P w w'"
proof (cases op)
  case (Op_init a)
  with run g show ?thesis by (simp add: init_initialized adds_only_refl)
next
  case (Op_draw a)
  with run have "draw a g w = (r, g', w')" by simp
  from draw_initialized[of P c, OF P g this] g show ?thesis by simp
next
  case (Op_setIndex ix)
  with run g show ?thesis by (auto simp: setIndex_def adds_only_refl split: index_arg.splits)
next
  case (Op_setAttribute key d)
  with run g show ?thesis
    by (auto simp: setAttribute_def adds_only_refl split: if_splits option.splits)
next
  case (Op_deleteAttribute key)
  with run g show ?thesis by (auto simp: deleteAttribute_def adds_only_refl)
qed

lemma run_ops_initialized:
  assumes P: "\<And>call. \<not> is_upload_call call \<Longrightarrow> P (ctx_id c, call)"
  shows "isInitialized g \<Longrightarrow> gl g = Some c \<Longrightarrow> run_ops ops g w = (g', w')
    \<Longrightarrow> isInitialized g' \<and> gl g' = Some c \<and> adds_only P w w'"
proof (induction ops arbitrary: g w)
  case Nil
  then show ?case by (auto simp: adds_only_refl)
next
  case (Cons op ops)
  obtain r g1 w1 where step: "apply_op op g w = (r, g1, w1)" by (metis prod_cases3)
  from apply_op_initialized[of P c, OF P Cons.prems(1,2) step]
  have 1: "isInitialized g1" "gl g1 = Some c" "adds_only P w w1" by simp_all
  from Cons.prems(3) step have "run_ops ops g1 w1 = (g', w')" by simp
  from Cons.IH[OF 1(1,2) this] 1(3) show ?case by (metis adds_only_trans)
qed


lemma adds_no_draw: "adds_only (\<lambda>e. \<not> is_draw_call (snd e)) w w' \<Longrightarrow> draw_calls w' = draw_calls w"
  by (auto simp: adds_only_iff draw_calls_def list_all_iff filter_empty_conv)

lemma draw_calls_console [simp]: "draw_calls (w\<lparr>console := x\<rparr>) = draw_calls w"
  by (simp add: draw_calls_def)

lemma init_no_draw: "init (Obj c) g w = (r, g', w') \<Longrightarrow> draw_calls w' = draw_calls w"
  by (rule adds_no_draw, rule init_adds[where c = c]) simp_all

lemma draw_not_initialized:
  "\<not> isInitialized g \<Longrightarrow> draw Null g w = (Inl NotInitialized, g, w\<lparr>console := console w @ [Error_not_initialized]\<rparr>)"
  by (simp add: draw_def)

lemma draw_init_error: "init (Obj c) g w = (Inl e, g', w') \<Longrightarrow> draw (Obj c) g w = (Inl e, g', w')"
  by (simp add: draw_def)

section \<open>Initialisation: the flag, a second call, unequal counts\<close>

text \<open>
  Claim C1, as amended. The source sets \<open>isInitialized\<close> in the last statement of
  \<open>init\<close>, after the loop that validates the counts. So when \<open>init\<close> fails with
  InconsistentAttributeCount the flag of the geometry is still false, and a later
  \<open>draw\<close> without a context fails with NotInitialized.
\<close>

theorem init_failure_keeps_flag_false:
  assumes "init gl_arg g w = (Inl InconsistentAttributeCount, g', w')"
  shows "\<not> isInitialized g'
       \<and> draw Null g' w' = (Inl NotInitialized, g', w'\<lparr>console := console w' @ [Error_not_initialized]\<rparr>)"
  using init_error_flag[OF assms] by (simp add: draw_not_initialized)

text \<open>
  Claim C1 as stated fails: on the geometry with 3 positions and 1 color, \<open>init\<close>
  fails with InconsistentAttributeCount and the flag is false, not true.
\<close>

theorem init_failure_sets_flag_counterexample:
  "fst (init (Obj full_context) mismatched empty_world) = Inl InconsistentAttributeCount
   \<and> isInitialized (fst (snd (init (Obj full_context) mismatched empty_world))) = False"
  by code_simp

theorem init_failure_keeps_flag_false_witness:
  "init (Obj full_context) mismatched empty_world
     = (Inl InconsistentAttributeCount,
        fst (snd (init (Obj full_context) mismatched empty_world)),
        snd (snd (init (Obj full_context) mismatched empty_world)))
   \<and> \<not> isInitialized (fst (snd (init (Obj full_context) mismatched empty_world)))"
proof -
  have "fst (init (Obj full_context) mismatched empty_world) = Inl InconsistentAttributeCount"
    by code_simp
  then have run: "init (Obj full_context) mismatched empty_world
     = (Inl InconsistentAttributeCount,
        fst (snd (init (Obj full_context) mismatched empty_world)),
        snd (snd (init (Obj full_context) mismatched empty_world)))"
    by (metis prod.collapse)
  from init_failure_keeps_flag_false[OF run] run show ?thesis by simp
qed

text \<open>
  Claim C4, as amended. After an \<open>init\<close> that returned without an exception, a second
  \<open>init\<close> with any argument (another context, an invalid one, null) returns without
  an exception and changes neither the geometry nor the world: no buffer, no upload.
\<close>

theorem init_twice_after_success:
  assumes "init a1 g w = (Inr (), g1, w1)"
  shows "init a2 g1 w1 = (Inr (), g1, w1)"
  using init_ok_flag[OF assms] by (rule init_initialized)

text \<open>
  Claim C4 as stated fails for a geometry whose first \<open>init\<close> failed: the flag is
  still false, so the second \<open>init\<close> on the mismatched geometry creates and fills two
  more buffers and raises InconsistentAttributeCount again.
\<close>

theorem init_twice_counterexample:
  "fst mismatched_twice = Inl InconsistentAttributeCount
   \<and> map snd (new_calls (snd (snd mismatched_once)) (snd (snd mismatched_twice)))
     = [Call_createBuffer, Call_bindBuffer ARRAY_BUFFER (Some 2),
        Call_bufferData ARRAY_BUFFER (Float32Array_from [0, 0, 0, 1, 0, 0, 0, 1, 0]) STATIC_DRAW,
        Call_createBuffer, Call_bindBuffer ARRAY_BUFFER (Some 3),
        Call_bufferData ARRAY_BUFFER (Float32Array_from [1, 0, 0]) STATIC_DRAW]"
  by code_simp

theorem init_twice_after_success_witness:
  "init (Obj full_context) quad empty_world
     = (Inr (), fst (snd (init (Obj full_context) quad empty_world)),
        snd (snd (init (Obj full_context) quad empty_world)))
   \<and> init (Obj other_context) (fst (snd (init (Obj full_context) quad empty_world)))
        (snd (snd (init (Obj full_context) quad empty_world)))
     = (Inr (), fst (snd (init (Obj full_context) quad empty_world)),
        snd (snd (init (Obj full_context) quad empty_world)))"
proof -
  have "fst (init (Obj full_context) quad empty_world) = Inr ()"
    by code_simp
  then have run: "init (Obj full_context) quad empty_world
     = (Inr (), fst (snd (init (Obj full_context) quad empty_world)),
        snd (snd (init (Obj full_context) quad empty_world)))"
    by (metis prod.collapse)
  from init_twice_after_success[OF run] run show ?thesis by simp
qed

subsection \<open>Unequal counts\<close>

lemma createBuffer_ok:
  "has c CreateBuffer \<Longrightarrow> has c BindBuffer \<Longrightarrow> has c BufferData
   \<Longrightarrow> \<exists>b w'. createBuffer c xs w = (Inr b, w')"
  by (simp add: createBuffer_def bnd_def invoke_def invoke_new_def ret_def)

lemma upload_attributes_ok:
  assumes "has c CreateBuffer" "has c BindBuffer" "has c BufferData"
  shows "\<exists>xs' n' w'. upload_attributes c xs n w = (None, xs', n', w')"
proof (induction xs arbitrary: n w)
  case Nil
  then show ?case by simp
next
  case (Cons x xs)
  obtain key a where x: "x = (key, a)" by (cases x)
  from createBuffer_ok[OF assms] obtain b w1 where cb: "createBuffer c (array a) w = (Inr b, w1)"
    by blast
  from Cons.IH obtain xs2 n2 w2 where
    "upload_attributes c xs (js_divide (length (array a)) (itemSize a)) w1 = (None, xs2, n2, w2)"
    by blast
  with x cb show ?case by (simp add: Let_def)
qed

lemma upload_attributes_counts:
  "upload_attributes c xs n w = (None, xs', n', w') \<Longrightarrow> (k, a) \<in> set xs
   \<Longrightarrow> \<exists>a'. (k, a') \<in> set xs' \<and> count a' = Some (js_divide (length (array a)) (itemSize a))"
proof (induction xs arbitrary: n w xs' n' w')
  case Nil
  then show ?case by simp
next
  case (Cons x xs)
  obtain key b where x: "x = (key, b)" by (cases x)
  obtain rb w1 where cb: "createBuffer c (array b) w = (rb, w1)" by (metis prod.collapse)
  show ?case
  proof (cases rb)
    case (Inl e)
    with Cons.prems(1) x cb show ?thesis by simp
  next
    case (Inr h)
    obtain r2 xs2 n2 w2 where rec:
      "upload_attributes c xs (js_divide (length (array b)) (itemSize b)) w1 = (r2, xs2, n2, w2)"
      by (metis prod_cases4)
    with Cons.prems(1) x cb Inr have r2: "r2 = None"
      and xs': "xs' = (key, b\<lparr>buffer := Some h, count := Some (js_divide (length (array b)) (itemSize b))\<rparr>) # xs2"
      by (simp_all add: Let_def)
    show ?thesis
    proof (cases "(k, a) = (key, b)")
      case True
      with xs' show ?thesis by auto
    next
      case False
      with Cons.prems(2) x have "(k, a) \<in> set xs" by auto
      from Cons.IH[OF rec[unfolded r2] this] xs' show ?thesis by auto
    qed
  qed
qed

lemma check_counts_None:
  "check_counts xs n = None \<Longrightarrow> (k, a) \<in> set xs \<Longrightarrow> count a = Some n"
  by (induction xs) (auto simp: js_strict_eq_def split: if_splits)

text \<open>
  In the range of \<open>sizes_in_range\<close>, two different counts are numbers below \<open>2^32\<close>
  that are at least 1/16 apart: the doubles nearest to them are different too.
\<close>

lemma js_divide_separated:
  assumes k1: "1 \<le> k1" "k1 \<le> 4" and k2: "1 \<le> k2" "k2 \<le> 4"
    and n: "n1 < 2 ^ 32" "n2 < 2 ^ 32"
    and ne: "js_divide n1 k1 \<noteq> js_divide n2 k2"
  shows "\<exists>x y. js_divide n1 k1 = Num x \<and> js_divide n2 k2 = Num y
           \<and> 1 / 16 \<le> \<bar>x - y\<bar> \<and> 0 \<le> x \<and> x < 2 ^ 32 \<and> 0 \<le> y \<and> y < 2 ^ 32"
proof -
  let ?x = "real n1 / real k1" and ?y = "real n2 / real k2"
  have x: "js_divide n1 k1 = Num ?x" and y: "js_divide n2 k2 = Num ?y"
    using k1 k2 by (simp_all add: js_divide_def)
  have pos: "0 < real k1" "0 < real k2" using k1 k2 by simp_all
  from ne x y have "?x \<noteq> ?y" by simp
  then have "real n1 * real k2 \<noteq> real n2 * real k1"
    using pos by (simp add: field_simps)
  then have "int n1 * int k2 \<noteq> int n2 * int k1"
    by (metis of_int_mult of_int_of_nat_eq)
  then have "1 \<le> \<bar>int n1 * int k2 - int n2 * int k1\<bar>" by linarith
  then have "1 \<le> \<bar>real_of_int (int n1 * int k2 - int n2 * int k1)\<bar>"
    by (metis of_int_1_le_iff of_int_abs)
  then have d: "1 \<le> \<bar>real n1 * real k2 - real n2 * real k1\<bar>" by simp
  have kk: "real k1 * real k2 \<le> 16"
  proof -
    have "k1 * k2 \<le> 4 * 4" using k1(2) k2(2) by (rule mult_le_mono)
    then have "real (k1 * k2) \<le> 16" by linarith
    then show ?thesis by simp
  qed
  have "?x - ?y = (real n1 * real k2 - real n2 * real k1) / (real k1 * real k2)"
    using pos by (simp add: field_simps)
  then have "\<bar>?x - ?y\<bar> = \<bar>real n1 * real k2 - real n2 * real k1\<bar> / (real k1 * real k2)"
    using pos by (simp add: abs_mult)
  also have "\<dots> \<ge> 1 / (real k1 * real k2)"
    using d pos by (simp add: divide_right_mono)
  finally have "1 / (real k1 * real k2) \<le> \<bar>?x - ?y\<bar>" .
  moreover have "1 / 16 \<le> 1 / (real k1 * real k2)"
    using kk pos by (simp add: frac_le)
  ultimately have sep: "1 / 16 \<le> \<bar>?x - ?y\<bar>" by linarith
  have "1 * real n1 \<le> real k1 * real n1" "1 * real n2 \<le> real k2 * real n2"
    using k1(1) k2(1) by (intro mult_right_mono; simp)+
  then have bx: "?x \<le> real n1" "?y \<le> real n2"
    using pos by (simp_all add: field_simps)
  have "real n1 < 2 ^ 32" "real n2 < 2 ^ 32"
    using n by (metis of_nat_less_iff of_nat_numeral of_nat_power)+
  with bx have "?x < 2 ^ 32" "?y < 2 ^ 32" by linarith+
  with x y sep show ?thesis by simp
qed

lemma sizes_in_rangeD:
  "sizes_in_range g \<Longrightarrow> (k, a) \<in> set (attributes g)
   \<Longrightarrow> 1 \<le> itemSize a \<and> itemSize a \<le> 4 \<and> length (array a) < 2 ^ 32"
  by (auto simp: sizes_in_range_def list_all_iff)

text \<open>
  Claim C5. On a geometry that is not initialized yet and whose attributes have item
  sizes from 1 to 4 and arrays shorter than \<open>2^32\<close>, with a context that passes the check
  and can create, bind and fill buffers: when two attributes have different element
  counts, \<open>init\<close> fails with InconsistentAttributeCount, and so does a \<open>draw\<close> that is
  given the context; the flag stays false and no draw call is made. The two counts are
  at least 1/16 apart and below \<open>2^32\<close>, so that the doubles which the source compares
  are different as the exact counts are.
\<close>

theorem unequal_counts_rejected:
  assumes "\<not> isInitialized g"
    and "has c GetParameter" "has c CreateBuffer" "has c BindBuffer" "has c BufferData"
    and "(k1, a1) \<in> set (attributes g)" "(k2, a2) \<in> set (attributes g)"
    and "js_divide (length (array a1)) (itemSize a1) \<noteq> js_divide (length (array a2)) (itemSize a2)"
    and "sizes_in_range g"
  shows "(\<exists>g' w'. init (Obj c) g w = (Inl InconsistentAttributeCount, g', w')
           \<and> draw (Obj c) g w = (Inl InconsistentAttributeCount, g', w')
           \<and> \<not> isInitialized g' \<and> draw_calls w' = draw_calls w)
       \<and> (\<exists>x y. js_divide (length (array a1)) (itemSize a1) = Num x
             \<and> js_divide (length (array a2)) (itemSize a2) = Num y
             \<and> 1 / 16 \<le> \<bar>x - y\<bar> \<and> 0 \<le> x \<and> x < 2 ^ 32 \<and> 0 \<le> y \<and> y < 2 ^ 32)"
proof -
  from sizes_in_rangeD[OF assms(9,6)] sizes_in_rangeD[OF assms(9,7)]
  have sep: "\<exists>x y. js_divide (length (array a1)) (itemSize a1) = Num x
      \<and> js_divide (length (array a2)) (itemSize a2) = Num y
      \<and> 1 / 16 \<le> \<bar>x - y\<bar> \<and> 0 \<le> x \<and> x < 2 ^ 32 \<and> 0 \<le> y \<and> y < 2 ^ 32"
    by (intro js_divide_separated assms(8)) simp_all
  from upload_attributes_ok[OF assms(3,4,5)] obtain xs' n' w1 where
    up: "upload_attributes c (attributes g) (Num 0) w = (None, xs', n', w1)" by blast
  from upload_attributes_counts[OF up assms(6)] obtain b1 where
    b1: "(k1, b1) \<in> set xs'" "count b1 = Some (js_divide (length (array a1)) (itemSize a1))" by blast
  from upload_attributes_counts[OF up assms(7)] obtain b2 where
    b2: "(k2, b2) \<in> set xs'" "count b2 = Some (js_divide (length (array a2)) (itemSize a2))" by blast
  have "check_counts xs' n' \<noteq> None"
  proof
    assume none: "check_counts xs' n' = None"
    from check_counts_None[OF none b1(1)] check_counts_None[OF none b2(1)] b1(2) b2(2) assms(8)
    show False by simp
  qed
  then obtain key a where cc: "check_counts xs' n' = Some (key, a)" by auto
  let ?g = "g\<lparr>gl := Some c, attributes := xs'\<rparr>"
  let ?w = "w1\<lparr>console := console w1 @ [Error_attribute_count key (count a) n']\<rparr>"
  have run: "init (Obj c) g w = (Inl InconsistentAttributeCount, ?g, ?w)"
    using assms(1,2) up cc by (simp add: init_def Let_def)
  moreover have "draw (Obj c) g w = (Inl InconsistentAttributeCount, ?g, ?w)"
    using run by (rule draw_init_error)
  moreover have "\<not> isInitialized ?g" using assms(1) by simp
  moreover have "draw_calls ?w = draw_calls w" using run by (rule init_no_draw)
  ultimately show ?thesis using sep by blast
qed

theorem unequal_counts_rejected_witness:
  "\<not> isInitialized mismatched \<and> sizes_in_range mismatched
   \<and> has full_context GetParameter \<and> has full_context CreateBuffer
   \<and> has full_context BindBuffer \<and> has full_context BufferData
   \<and> (''position'', mk_attribute [0, 0, 0, 1, 0, 0, 0, 1, 0] 3) \<in> set (attributes mismatched)
   \<and> (''color'', mk_attribute [1, 0, 0] 3) \<in> set (attributes mismatched)
   \<and> js_divide (length (array (mk_attribute [0, 0, 0, 1, 0, 0, 0, 1, 0] 3)))
         (itemSize (mk_attribute [0, 0, 0, 1, 0, 0, 0, 1, 0] 3)) = Num 3
   \<and> js_divide (length (array (mk_attribute [1, 0, 0] 3))) (itemSize (mk_attribute [1, 0, 0] 3)) = Num 1
   \<and> (\<exists>g' w'. init (Obj full_context) mismatched empty_world = (Inl InconsistentAttributeCount, g', w')
           \<and> draw (Obj full_context) mismatched empty_world = (Inl InconsistentAttributeCount, g', w')
           \<and> \<not> isInitialized g' \<and> draw_calls w' = draw_calls empty_world)"
proof -
  have g: "\<not> isInitialized mismatched"
    by (simp add: mismatched_def new_BufferGeometry_def)
  have h: "has full_context GetParameter" "has full_context CreateBuffer"
    "has full_context BindBuffer" "has full_context BufferData"
    by (simp_all add: full_context_def)
  have m: "(''position'', mk_attribute [0, 0, 0, 1, 0, 0, 0, 1, 0] 3) \<in> set (attributes mismatched)"
    "(''color'', mk_attribute [1, 0, 0] 3) \<in> set (attributes mismatched)"
    by (simp_all add: mismatched_def new_BufferGeometry_def)
  have n: "js_divide (length (array (mk_attribute [0, 0, 0, 1, 0, 0, 0, 1, 0] 3)))
         (itemSize (mk_attribute [0, 0, 0, 1, 0, 0, 0, 1, 0] 3)) = Num 3"
    "js_divide (length (array (mk_attribute [1, 0, 0] 3))) (itemSize (mk_attribute [1, 0, 0] 3)) = Num 1"
    by (simp_all add: js_divide_def mk_attribute_def)
  have d: "js_divide (length (array (mk_attribute [0, 0, 0, 1, 0, 0, 0, 1, 0] 3)))
         (itemSize (mk_attribute [0, 0, 0, 1, 0, 0, 0, 1, 0] 3))
       \<noteq> js_divide (length (array (mk_attribute [1, 0, 0] 3))) (itemSize (mk_attribute [1, 0, 0] 3))"
    unfolding n by simp
  have s: "sizes_in_range mismatched"
    by (simp add: sizes_in_range_def mismatched_def new_BufferGeometry_def mk_attribute_def)
  from unequal_counts_rejected[OF g h m d s, of empty_world] g h m n s show ?thesis
    by blast
qed

section \<open>The context a geometry is bound to\<close>

text \<open>
  Claim C10. After an \<open>init\<close> that succeeded with context \<open>c\<close>, the geometry is
  bound to \<open>c\<close> and every call of that \<open>init\<close> went to \<open>c\<close>. Whatever the host does
  next (\<open>init\<close> or \<open>draw\<close> with any context argument, \<open>setIndex\<close>, \<open>setAttribute\<close>,
  \<open>deleteAttribute\<close>, failing or not), the geometry stays initialized and bound to
  \<open>c\<close>, every further call goes to \<open>c\<close>, and none of them creates or fills a buffer.
\<close>

theorem bound_context_unchanged:
  assumes "\<not> isInitialized g0"
    and "init (Obj c) g0 w0 = (Inr (), g, w)"
    and "run_ops ops g w = (g', w')"
  shows "gl g = Some c \<and> calls_through c w0 w
       \<and> isInitialized g' \<and> gl g' = Some c
       \<and> adds_only (\<lambda>e. fst e = ctx_id c \<and> \<not> is_upload_call (snd e)) w w'"
proof -
  have 1: "isInitialized g" "gl g = Some c"
    using assms(1,2) init_ok_flag init_ok_gl by blast+
  have 2: "calls_through c w0 w"
    unfolding calls_through_def by (rule init_adds[OF _ assms(2)]) simp
  from run_ops_initialized[where P = "\<lambda>e. fst e = ctx_id c \<and> \<not> is_upload_call (snd e)", OF _ 1 assms(3)]
  show ?thesis using 1 2 by simp
qed


theorem bound_context_unchanged_witness:
  "\<not> isInitialized triangle
   \<and> init (Obj full_context) triangle empty_world
       = (Inr (), fst (snd triangle_ready), snd (snd triangle_ready))
   \<and> ctx_id other_context \<noteq> ctx_id full_context
   \<and> isInitialized (fst (run_ops later_ops (fst (snd triangle_ready)) (snd (snd triangle_ready))))
   \<and> gl (fst (run_ops later_ops (fst (snd triangle_ready)) (snd (snd triangle_ready))))
       = Some full_context
   \<and> adds_only (\<lambda>e. fst e = ctx_id full_context \<and> \<not> is_upload_call (snd e))
        (snd (snd triangle_ready))
        (snd (run_ops later_ops (fst (snd triangle_ready)) (snd (snd triangle_ready))))
   \<and> draw_calls (snd (run_ops later_ops (fst (snd triangle_ready)) (snd (snd triangle_ready))))
       = [Call_drawArrays TRIANGLES 0 (Some (Num 3)),
          Call_drawElements TRIANGLES None UNSIGNED_SHORT 0]"
proof -
  have g: "\<not> isInitialized triangle"
    by (simp add: triangle_def new_BufferGeometry_def)
  have "fst triangle_ready = Inr ()"
    by code_simp
  then have i: "init (Obj full_context) triangle empty_world
       = (Inr (), fst (snd triangle_ready), snd (snd triangle_ready))"
    unfolding triangle_ready_def by (metis prod.collapse)
  have r: "run_ops later_ops (fst (snd triangle_ready)) (snd (snd triangle_ready))
       = (fst (run_ops later_ops (fst (snd triangle_ready)) (snd (snd triangle_ready))),
          snd (run_ops later_ops (fst (snd triangle_ready)) (snd (snd triangle_ready))))"
    by simp
  have id: "ctx_id other_context \<noteq> ctx_id full_context"
    by (simp add: other_context_def full_context_def)
  have d: "draw_calls (snd (run_ops later_ops (fst (snd triangle_ready)) (snd (snd triangle_ready))))
       = [Call_drawArrays TRIANGLES 0 (Some (Num 3)),
          Call_drawElements TRIANGLES None UNSIGNED_SHORT 0]"
    by code_simp
  from bound_context_unchanged[OF g i r] g i id d show ?thesis
    by blast
qed

section \<open>The draw call of an initialized geometry\<close>












section \<open>The check of the context\<close>

text \<open>
  Claim C3, as amended. What both checks test is that \<open>getParameter\<close> is a function.
  For a context object without it, \<open>init\<close> of a geometry that is not initialized yet
  fails with InvalidContext and leaves the geometry and the context as they were, and
  the constructor of WebGLProgram fails with InvalidContext before it compiles anything.
\<close>

theorem invalid_context_rejected:
  assumes "\<not> has c GetParameter" and "\<not> isInitialized g"
  shows "init (Obj c) g w
           = (Inl InvalidContext, g, w\<lparr>console := console w @ [Error_context_init (name g)]\<rparr>)
       \<and> WebGLProgram_constructor (Obj c) w
           = (Inl InvalidContext, w\<lparr>console := console w @ [Error_context_program]\<rparr>)"
  using assms
  by (simp add: init_def WebGLProgram_constructor_def bnd_def log_console_def throw_def)

text \<open>
  Claim C3 as stated fails: a context that has \<open>getParameter\<close> but no \<open>createBuffer\<close>
  passes the check of \<open>init\<close>, which then raises a TypeError (or succeeds, when there
  is nothing to upload); a context without \<open>createShader\<close> passes the check of the
  constructor, which then raises a TypeError; and null raises a TypeError in the check.
\<close>

theorem missing_capability_counterexample:
  "\<not> has no_buffer_context CreateBuffer
   \<and> fst (init (Obj no_buffer_context) triangle empty_world) = Inl TypeError
   \<and> fst (init (Obj no_buffer_context) new_BufferGeometry empty_world) = Inr ()
   \<and> \<not> has no_shader_context CreateShader
   \<and> fst (WebGLProgram_constructor (Obj no_shader_context) empty_world) = Inl TypeError
   \<and> fst (init Null triangle empty_world) = Inl TypeError"
proof -
  have "\<not> has no_buffer_context CreateBuffer"
    "fst (init (Obj no_buffer_context) triangle empty_world) = Inl TypeError"
    "fst (init (Obj no_buffer_context) new_BufferGeometry empty_world) = Inr ()"
    "\<not> has no_shader_context CreateShader"
    "fst (init Null triangle empty_world) = Inl TypeError"
    by code_simp+
  moreover have "fst (WebGLProgram_constructor (Obj no_shader_context) empty_world) = Inl TypeError"
    by (simp add: WebGLProgram_constructor_def createProgram_def loadShader_def bnd_def
          invoke_new_def throw_def no_shader_context_def full_context_def)
  ultimately show ?thesis by simp
qed

theorem invalid_context_rejected_witness:
  "\<not> has no_parameter_context GetParameter \<and> \<not> isInitialized triangle
   \<and> fst (init (Obj no_parameter_context) triangle empty_world) = Inl InvalidContext
   \<and> fst (WebGLProgram_constructor (Obj no_parameter_context) empty_world) = Inl InvalidContext
   \<and> calls (snd (snd (init (Obj no_parameter_context) triangle empty_world))) = []"
proof -
  have h: "\<not> has no_parameter_context GetParameter"
    by (simp add: no_parameter_context_def full_context_def)
  have g: "\<not> isInitialized triangle"
    by (simp add: triangle_def new_BufferGeometry_def)
  from invalid_context_rejected[OF h g, of empty_world] h g show ?thesis
    by (simp add: empty_world_def)
qed

section \<open>The stages that createProgram attaches\<close>

lemma compile_stages_handles:
  "list_all is_handle shaders \<Longrightarrow> compile_stages c ndx shaders w = (Inr [], w)"
proof (induction shaders arbitrary: ndx)
  case Nil
  then show ?case by simp
next
  case (Cons s shaders)
  then show ?case by (cases s) simp_all
qed

text \<open>
  Claim C2 does not hold of the code: \<open>createProgram\<close> attaches the shaders it compiled
  from strings only. For a list of compiled shaders it attaches nothing at all, whatever
  the context answers, although the function is documented to take "the shaders to
  attach".
\<close>

theorem handles_are_not_attached:
  assumes "list_all is_handle shaders" and "createProgram c shaders w = (r, w')"
  shows "attached (map snd (new_calls w w')) = []"
  using assms(2)
  by (auto simp: createProgram_def bnd_def compile_stages_handles[OF assms(1)] invoke_def
        invoke_new_def log_console_def ret_def new_calls_def split: if_splits)

theorem handles_are_not_attached_witness:
  "list_all is_handle [Handle 7, Handle 8]
   \<and> createProgram full_context [Handle 7, Handle 8] empty_world
       = (Inr (Some 0),
          empty_world\<lparr>calls := [(1, Call_createProgram), (1, Call_linkProgram 0),
                                 (1, Call_getProgramParameter 0 LINK_STATUS)],
                      fresh := 1\<rparr>)
   \<and> attached (map snd (new_calls empty_world
        (snd (createProgram full_context [Handle 7, Handle 8] empty_world)))) = []"
proof -
  have h: "list_all is_handle [Handle 7, Handle 8]" by simp
  have run: "createProgram full_context [Handle 7, Handle 8] empty_world
       = (Inr (Some 0),
          empty_world\<lparr>calls := [(1, Call_createProgram), (1, Call_linkProgram 0),
                                 (1, Call_getProgramParameter 0 LINK_STATUS)],
                      fresh := 1\<rparr>)"
    by (simp add: createProgram_def bnd_def invoke_def invoke_new_def ret_def
          full_context_def empty_world_def)
  from handles_are_not_attached[OF h run] h run show ?thesis by simp
qed

section \<open>The dispatch of setUniform\<close>

text \<open>
  Claim C7, as amended. For a value with a truthy \<open>isColor\<close>, a uniform name with a
  location and a uniform whose current value has length 3 or 4, \<open>setUniform\<close> calls
  \<open>uniform3f\<close> or \<open>uniform4f\<close> accordingly, and in both cases with the four values
  \<open>r, g, b, 1.0\<close>; the setter of arity 3 reads the first three of them.
\<close>

theorem color_uniform_dispatch:
  assumes "uniform_location (gl_prog this) uname = Some loc"
    and "uniform_reading (gl_prog this) loc = Reading_array n" and "n = 3 \<or> n = 4"
    and "has (gl_prog this) GetUniformLocation" "has (gl_prog this) GetUniform"
      "has (gl_prog this) Uniform3f" "has (gl_prog this) Uniform4f"
    and "isColor obj"
  shows "setUniform this uname (V_object obj) w
           = (Inr (),
              w\<lparr>calls := calls w @
                 [(ctx_id (gl_prog this), Call_getUniformLocation (program this) uname),
                  (ctx_id (gl_prog this), Call_getUniform (program this) loc),
                  (ctx_id (gl_prog this),
                   Call_uniform_f n loc [prop_r obj, prop_g obj, prop_b obj, Some 1])]\<rparr>)
       \<and> components_read (Call_uniform_f n loc [prop_r obj, prop_g obj, prop_b obj, Some 1])
           = (if n = 3 then [prop_r obj, prop_g obj, prop_b obj]
              else [prop_r obj, prop_g obj, prop_b obj, Some 1])"
  using assms
  by (auto simp: setUniform_def Let_def bnd_def invoke_def dispatch_uniform_def
        uniform_f_name_def components_read_def)

text \<open>
  Claim C7 as stated fails: for a vec3 uniform the call is \<open>uniform3f(loc, r, g, b, 1.0)\<close>,
  so a fourth component is appended although the arity is 3.
\<close>

theorem color_fourth_component_counterexample:
  "uniform_reading (gl_prog example_program) 0 = Reading_array 3
   \<and> setUniform example_program ''color'' (V_object orange) empty_world
       = (Inr (),
          empty_world\<lparr>calls :=
            [(1, Call_getUniformLocation (Some 2) ''color''), (1, Call_getUniform (Some 2) 0),
             (1, Call_uniform_f 3 0 [Some 1, Some (1 / 2), Some 0, Some 1])]\<rparr>)"
  by (simp add: setUniform_def Let_def bnd_def invoke_def dispatch_uniform_def
        uniform_f_name_def example_program_def orange_def full_context_def empty_world_def)

theorem color_uniform_dispatch_witness:
  "uniform_location (gl_prog vec4_program) ''color'' = Some 0
   \<and> uniform_reading (gl_prog vec4_program) 0 = Reading_array 4
   \<and> isColor orange
   \<and> map snd (calls (snd (setUniform vec4_program ''color'' (V_object orange) empty_world)))
       = [Call_getUniformLocation (Some 2) ''color'', Call_getUniform (Some 2) 0,
          Call_uniform_f 4 0 [Some 1, Some (1 / 2), Some 0, Some 1]]
   \<and> components_read (Call_uniform_f 4 0 [Some 1, Some (1 / 2), Some 0, Some 1])
       = [Some 1, Some (1 / 2), Some 0, Some 1]
   \<and> components_read (Call_uniform_f 3 0 [Some 1, Some (1 / 2), Some 0, Some 1])
       = [Some 1, Some (1 / 2), Some 0]"
proof -
  have l: "uniform_location (gl_prog vec4_program) ''color'' = Some 0"
    and r: "uniform_reading (gl_prog vec4_program) 0 = Reading_array 4"
    and h: "has (gl_prog vec4_program) GetUniformLocation" "has (gl_prog vec4_program) GetUniform"
      "has (gl_prog vec4_program) Uniform3f" "has (gl_prog vec4_program) Uniform4f"
    and c: "isColor orange"
    by (simp_all add: vec4_program_def example_program_def vec4_context_def full_context_def orange_def)
  have n: "(4::nat) = 3 \<or> (4::nat) = 4" by simp
  have p: "program vec4_program = Some 2" "ctx_id (gl_prog vec4_program) = 1"
    "prop_r orange = Some 1" "prop_g orange = Some (1 / 2)" "prop_b orange = Some 0"
    by (simp_all add: vec4_program_def example_program_def vec4_context_def full_context_def orange_def)
  have 3: "components_read (Call_uniform_f 3 0 [Some 1, Some (1 / 2), Some 0, Some 1])
       = [Some 1, Some (1 / 2), Some 0]"
    by (simp add: components_read_def)
  from color_uniform_dispatch[OF l r n h c, of empty_world] l r c 3 show ?thesis
    by (simp add: p empty_world_def)
qed

text \<open>
  Claim C8, as amended. For a plain array of length 1 to 4, a uniform name with a
  location and a uniform whose current value is not null, \<open>setUniform\<close> calls
  \<open>uniform<L>fv(loc, value)\<close> with \<open>L\<close> the length of the array.
\<close>

theorem array_uniform_dispatch:
  assumes "uniform_location (gl_prog this) uname = Some loc"
    and "uniform_reading (gl_prog this) loc \<noteq> Reading_null"
    and "1 \<le> length xs" "length xs \<le> 4"
    and "has (gl_prog this) GetUniformLocation" "has (gl_prog this) GetUniform"
      "has (gl_prog this) Uniform1fv" "has (gl_prog this) Uniform2fv"
      "has (gl_prog this) Uniform3fv" "has (gl_prog this) Uniform4fv"
  shows "setUniform this uname (V_array xs) w
           = (Inr (),
              w\<lparr>calls := calls w @
                 [(ctx_id (gl_prog this), Call_getUniformLocation (program this) uname),
                  (ctx_id (gl_prog this), Call_getUniform (program this) loc),
                  (ctx_id (gl_prog this), Call_uniform_fv (length xs) loc xs)]\<rparr>)"
proof -
  from assms(2) obtain ul where ul: "type_length (uniform_reading (gl_prog this) loc) = Inr ul"
    by (cases "uniform_reading (gl_prog this) loc") simp_all
  from assms(3,4) have "length xs = 1 \<or> length xs = 2 \<or> length xs = 3 \<or> length xs = 4"
    by arith
  then obtain m where m: "uniform_fv_name (length xs) = Some m" "has (gl_prog this) m"
    using assms(7-10) by (auto simp: uniform_fv_name_def)
  show ?thesis
    using assms(1,5,6) ul m
    by (simp add: setUniform_def Let_def bnd_def invoke_def dispatch_uniform_def)
qed

text \<open>
  Claim C8 as stated fails for typed arrays: a Float32Array is not \<open>instanceof Array\<close>
  and exposes no marker, so \<open>setUniform\<close> warns that the value is not supported and
  sets nothing.
\<close>

theorem typed_array_uniform_counterexample:
  "setUniform example_program ''color'' (V_typed_array [1, 2, 3]) empty_world
     = (Inr (),
        empty_world\<lparr>calls :=
            [(1, Call_getUniformLocation (Some 2) ''color''), (1, Call_getUniform (Some 2) 0)],
          console := [Warn_value_not_supported]\<rparr>)
   \<and> uniform_set_calls (snd (setUniform example_program ''color'' (V_typed_array [1, 2, 3]) empty_world))
     = []"
  by (simp add: setUniform_def Let_def bnd_def invoke_def dispatch_uniform_def log_console_def
        uniform_set_calls_def example_program_def full_context_def empty_world_def)

theorem array_uniform_dispatch_witness:
  "uniform_location (gl_prog example_program) ''color'' = Some 0
   \<and> uniform_reading (gl_prog example_program) 0 \<noteq> Reading_null
   \<and> 1 \<le> length [1, 2, 3 :: real] \<and> length [1, 2, 3 :: real] \<le> 4
   \<and> map snd (calls (snd (setUniform example_program ''color'' (V_array [1, 2, 3]) empty_world)))
       = [Call_getUniformLocation (Some 2) ''color'', Call_getUniform (Some 2) 0,
          Call_uniform_fv 3 0 [1, 2, 3]]"
proof -
  have l: "uniform_location (gl_prog example_program) ''color'' = Some 0"
    and r: "uniform_reading (gl_prog example_program) 0 \<noteq> Reading_null"
    and h: "has (gl_prog example_program) GetUniformLocation" "has (gl_prog example_program) GetUniform"
      "has (gl_prog example_program) Uniform1fv" "has (gl_prog example_program) Uniform2fv"
      "has (gl_prog example_program) Uniform3fv" "has (gl_prog example_program) Uniform4fv"
    by (simp_all add: example_program_def full_context_def)
  have n: "1 \<le> length [1, 2, 3 :: real]" "length [1, 2, 3 :: real] \<le> 4" by simp_all
  have p: "program example_program = Some 2" "ctx_id (gl_prog example_program) = 1"
    by (simp_all add: example_program_def full_context_def)
  from array_uniform_dispatch[OF l r n h, of empty_world] l r n show ?thesis
    by (simp add: p empty_world_def)
qed

text \<open>
  Claim C9. For a uniform name with a location and a plain array of length 0 or more
  than 4, \<open>setUniform\<close> raises a TypeError, on every context: the name
  \<open>uniform<length>fv\<close> is no method of the API. It logs no warning and sets no uniform.
\<close>

theorem array_of_other_length_raises:
  assumes "uniform_location (gl_prog this) uname = Some loc"
    and "length xs = 0 \<or> 4 < length xs"
  shows "\<exists>w'. setUniform this uname (V_array xs) w = (Inl TypeError, w')
           \<and> console w' = console w \<and> uniform_set_calls w' = uniform_set_calls w"
proof -
  from assms(2) have nm: "uniform_fv_name (length xs) = None"
    by (auto simp: uniform_fv_name_def)
  show ?thesis
  proof (cases "uniform_reading (gl_prog this) loc")
    case Reading_null
    with assms(1) show ?thesis
      by (auto simp: setUniform_def Let_def bnd_def invoke_def throw_def uniform_set_calls_def)
  next
    case Reading_scalar
    with assms(1) nm show ?thesis
      by (auto simp: setUniform_def Let_def bnd_def invoke_def throw_def dispatch_uniform_def
            uniform_set_calls_def)
  next
    case (Reading_array n)
    with assms(1) nm show ?thesis
      by (auto simp: setUniform_def Let_def bnd_def invoke_def throw_def dispatch_uniform_def
            uniform_set_calls_def)
  qed
qed

theorem array_of_other_length_raises_witness:
  "uniform_location (gl_prog example_program) ''color'' = Some 0
   \<and> length [1, 2, 3, 4, 5 :: real] = 5
   \<and> (\<exists>w'. setUniform example_program ''color'' (V_array [1, 2, 3, 4, 5]) empty_world = (Inl TypeError, w')
         \<and> console w' = console empty_world \<and> uniform_set_calls w' = uniform_set_calls empty_world)
   \<and> (\<exists>w'. setUniform example_program ''color'' (V_array []) empty_world = (Inl TypeError, w')
         \<and> console w' = console empty_world \<and> uniform_set_calls w' = uniform_set_calls empty_world)"
proof -
  have l: "uniform_location (gl_prog example_program) ''color'' = Some 0"
    by (simp add: example_program_def full_context_def)
  have n: "length [1, 2, 3, 4, 5 :: real] = 0 \<or> 4 < length [1, 2, 3, 4, 5 :: real]"
    "length ([] :: real list) = 0 \<or> 4 < length ([] :: real list)" by simp_all
  from array_of_other_length_raises[OF l n(1), of empty_world]
       array_of_other_length_raises[OF l n(2), of empty_world] l
  show ?thesis by simp
qed

end
